theory Spec2Isabelle
  imports Main "HOL-Library.Word" "HOL-Library.Signed_Division"
begin

unbundle bit_operations_syntax

section \<open>Machine integers\<close>

text \<open>
  The C code computes on \<open>int64_t\<close> (stamp fields, rates) and on \<open>int\<close> (the writer
  index). Both are words here; \<open>sint\<close> reads the two's-complement value, \<open><s\<close> and
  \<open>\<le>s\<close> are the signed comparisons. The unchecked C operators are the wrapping word
  operators.
\<close>

type_synonym int64 = "64 word"
type_synonym int32 = "32 word"

text \<open>\<open>static const int billion = 1000000000\<close>, promoted to \<open>int64_t\<close> where it is used.\<close>

definition billion :: int64 where
  "billion = 1000000000"

text \<open>\<open>billion >> 1\<close>\<close>

definition half_billion :: int64 where
  "half_billion = 500000000"

text \<open>C's \<open>/\<close> and \<open>%\<close> truncate towards zero.\<close>

definition c_div :: "int64 \<Rightarrow> int64 \<Rightarrow> int64" where
  "c_div a b = word_of_int (sint a sdiv sint b)"

definition c_mod :: "int64 \<Rightarrow> int64 \<Rightarrow> int64" where
  "c_mod a b = word_of_int (sint a smod sint b)"

text \<open>
  \<open>__builtin_add_overflow\<close>, \<open>__builtin_sub_overflow\<close>, \<open>__builtin_mul_overflow\<close>: the
  wrapped result, and whether the exact result did not fit.
\<close>

definition builtin_add_overflow :: "int64 \<Rightarrow> int64 \<Rightarrow> bool \<times> int64" where
  "builtin_add_overflow a b = (sint (a + b) \<noteq> sint a + sint b, a + b)"

definition builtin_sub_overflow :: "int64 \<Rightarrow> int64 \<Rightarrow> bool \<times> int64" where
  "builtin_sub_overflow a b = (sint (a - b) \<noteq> sint a - sint b, a - b)"

definition builtin_mul_overflow :: "int64 \<Rightarrow> int64 \<Rightarrow> bool \<times> int64" where
  "builtin_mul_overflow a b = (sint (a * b) \<noteq> sint a * sint b, a * b)"

section \<open>Stamp arithmetic (byztime\_stamp.c)\<close>

record byztime_stamp =
  seconds :: int64
  nanoseconds :: int64

text \<open>
  The stamp functions return \<open>0\<close> or \<open>-1\<close> with \<open>errno = EOVERFLOW\<close>, and write the
  (wrapped) result through their first argument in both cases. Here they return the pair
  of the overflow flag (\<open>True\<close> for \<open>-1\<close>) and the stamp written.
\<close>

definition byztime_stamp_normalize :: "byztime_stamp \<Rightarrow> bool \<times> byztime_stamp" where
  "byztime_stamp_normalize stamp =
     (if 0 \<le>s nanoseconds stamp \<and> nanoseconds stamp <s billion then (False, stamp)
      else
        let nsec_div = c_div (nanoseconds stamp) billion;
            nsec_mod = c_mod (nanoseconds stamp) billion;
            (overflowed, sec) = builtin_add_overflow (seconds stamp) nsec_div
        in if nsec_mod <s 0
           then let (overflowed2, sec2) = builtin_sub_overflow sec 1
                in (overflowed \<or> overflowed2,
                    \<lparr>seconds = sec2, nanoseconds = nsec_mod + billion\<rparr>)
           else (overflowed, \<lparr>seconds = sec, nanoseconds = nsec_mod\<rparr>))"

definition byztime_stamp_add :: "byztime_stamp \<Rightarrow> byztime_stamp \<Rightarrow> bool \<times> byztime_stamp" where
  "byztime_stamp_add stamp1 stamp2 =
     (let (o1, s1) = byztime_stamp_normalize stamp1;
          (o2, s2) = byztime_stamp_normalize stamp2;
          (o3, sec) = builtin_add_overflow (seconds s1) (seconds s2);
          (o4, sum) = byztime_stamp_normalize
                        \<lparr>seconds = sec, nanoseconds = nanoseconds s1 + nanoseconds s2\<rparr>
      in (o1 \<or> o2 \<or> o3 \<or> o4, sum))"

definition byztime_stamp_sub :: "byztime_stamp \<Rightarrow> byztime_stamp \<Rightarrow> bool \<times> byztime_stamp" where
  "byztime_stamp_sub stamp1 stamp2 =
     (let (o1, s1) = byztime_stamp_normalize stamp1;
          (o2, s2) = byztime_stamp_normalize stamp2;
          (o3, sec) = builtin_sub_overflow (seconds s1) (seconds s2);
          (o4, diff) = byztime_stamp_normalize
                         \<lparr>seconds = sec, nanoseconds = nanoseconds s1 - nanoseconds s2\<rparr>
      in (o1 \<or> o2 \<or> o3 \<or> o4, diff))"

text \<open>
  The half-to-even adjustment on the discarded residue, shared by the two scaling
  functions: \<open>nanoseconds++\<close>, \<open>nanoseconds--\<close> or nothing.
\<close>

definition round_residue :: "int64 \<Rightarrow> int64 \<Rightarrow> int64" where
  "round_residue residue nsec =
     (if half_billion <s residue \<or> (residue = half_billion \<and> nsec AND 1 \<noteq> 0)
      then nsec + 1
      else if residue <s - half_billion \<or> (residue = - half_billion \<and> nsec AND 1 \<noteq> 0)
      then nsec - 1
      else nsec)"

text \<open>
  \<open>byztime_stamp_downscale\<close>, for \<open>0 \<le> ppb \<le> billion\<close>. Its last normalisation is
  guarded by \<open>assert(false)\<close>: \<open>None\<close> is the abort of a failed assertion (the build does
  not define \<open>NDEBUG\<close>).
\<close>

definition byztime_stamp_downscale :: "byztime_stamp \<Rightarrow> int64 \<Rightarrow> (bool \<times> byztime_stamp) option" where
  "byztime_stamp_downscale stamp ppb =
     (let (overflowed, s) = byztime_stamp_normalize stamp;
          gigaseconds_in = c_div (seconds s) billion;
          seconds_in = c_mod (seconds s) billion;
          nanoseconds_in = nanoseconds s;
          nanoparts = ppb
      in if \<not> (0 \<le>s nanoparts \<and> nanoparts \<le>s billion) then None
         else
           let seconds_out = gigaseconds_in * nanoparts;
               nanoseconds_out = seconds_in * nanoparts;
               attoseconds_out = nanoseconds_in * nanoparts;
               nsec = nanoseconds_out + c_div attoseconds_out billion;
               residue = c_mod attoseconds_out billion;
               (o2, prod) = byztime_stamp_normalize
                              \<lparr>seconds = seconds_out, nanoseconds = round_residue residue nsec\<rparr>
           in if o2 then None else Some (overflowed, prod))"

definition byztime_stamp_scale :: "byztime_stamp \<Rightarrow> int64 \<Rightarrow> (bool \<times> byztime_stamp) option" where
  "byztime_stamp_scale stamp ppb =
     (if 0 \<le>s ppb \<and> ppb \<le>s billion then byztime_stamp_downscale stamp ppb
      else
        let (o1, s) = byztime_stamp_normalize stamp;
            gigaseconds_in = c_div (seconds s) billion;
            seconds_in = c_mod (seconds s) billion;
            nanoseconds_in = nanoseconds s;
            parts = c_div ppb billion;
            nanoparts = c_mod ppb billion;
            (o2, gigaseconds_out) = builtin_mul_overflow gigaseconds_in parts;
            seconds_out_1 = seconds_in * parts;
            seconds_out_2 = gigaseconds_in * nanoparts;
            nanoseconds_out_1 = seconds_in * nanoparts;
            nanoseconds_out_2 = nanoseconds_in * parts;
            attoseconds_out = nanoseconds_in * nanoparts;
            (o3, sec0) = builtin_mul_overflow gigaseconds_out billion;
            (o4, sec1) = builtin_add_overflow sec0 seconds_out_1;
            (o5, sec2) = builtin_add_overflow sec1 seconds_out_2;
            (o6, p) = byztime_stamp_normalize \<lparr>seconds = sec2, nanoseconds = nanoseconds_out_2\<rparr>;
            nsec = nanoseconds p + (c_div attoseconds_out billion + nanoseconds_out_1);
            residue = c_mod attoseconds_out billion;
            (o7, prod) = byztime_stamp_normalize
                           \<lparr>seconds = seconds p, nanoseconds = round_residue residue nsec\<rparr>
        in Some (o1 \<or> o2 \<or> o3 \<or> o4 \<or> o5 \<or> o6 \<or> o7, prod))"

text \<open>\<open>byztime_stamp_cmp\<close>: normalises copies, ignoring overflow; \<open>-1\<close>, \<open>0\<close> or \<open>1\<close>.\<close>

definition byztime_stamp_cmp :: "byztime_stamp \<Rightarrow> byztime_stamp \<Rightarrow> int" where
  "byztime_stamp_cmp stamp1 stamp2 =
     (let s1 = snd (byztime_stamp_normalize stamp1);
          s2 = snd (byztime_stamp_normalize stamp2)
      in if seconds s1 <s seconds s2 then - 1
         else if seconds s2 <s seconds s1 then 1
         else if nanoseconds s1 <s nanoseconds s2 then - 1
         else if nanoseconds s2 <s nanoseconds s1 then 1
         else 0)"

section \<open>Errors and outcomes\<close>

text \<open>
  The \<open>errno\<close> values the library sets itself, and \<open>Other_errno\<close> for a code that comes
  from the operating system or from a pthread call.
\<close>

datatype errno = EOVERFLOW | EPROTO | ECONNREFUSED | ERANGE | Other_errno int

text \<open>
  A call returns successfully, returns \<open>-1\<close> (or \<open>NULL\<close>) with \<open>errno\<close> set, or does
  not return at all: a failed \<open>assert\<close> or an access the C standard leaves undefined.
\<close>

datatype 'a outcome = Success 'a | Failure errno | Crashed

definition and_then :: "'a outcome \<Rightarrow> ('a \<Rightarrow> 'b outcome) \<Rightarrow> 'b outcome" where
  "and_then m f = (case m of Success x \<Rightarrow> f x | Failure e \<Rightarrow> Failure e | Crashed \<Rightarrow> Crashed)"

text \<open>The test \<open>f(&out, ...) < 0\<close> on a stamp operation, inside a chain of \<open>||\<close>.\<close>

definition checked :: "bool \<times> byztime_stamp \<Rightarrow> byztime_stamp outcome" where
  "checked p = (if fst p then Failure EOVERFLOW else Success (snd p))"

definition checked_scale :: "(bool \<times> byztime_stamp) option \<Rightarrow> byztime_stamp outcome" where
  "checked_scale p = (case p of None \<Rightarrow> Crashed | Some q \<Rightarrow> checked q)"

section \<open>The shared region (byztime\_internal.h)\<close>

type_synonym byte = "8 word"

record timedata_entry =
  offset :: byztime_stamp
  error :: byztime_stamp
  as_of :: byztime_stamp

definition NUM_ENTRIES :: int32 where
  "NUM_ENTRIES = 62"

text \<open>
  \<open>struct timedata_s\<close>: \<open>magic\<close> is three and \<open>era\<close> four \<open>atomic_int\<close>, \<open>td_i\<close> is the
  writer index \<open>i\<close>, \<open>entries\<close> the array of \<open>NUM_ENTRIES\<close> slots. The mutex is opaque: the
  calls on it appear as return codes of the host.
\<close>

record timedata =
  magic :: "int32 list"
  td_i :: int32
  era :: "int32 list"
  real_offset :: byztime_stamp
  entries :: "timedata_entry list"

definition default_drift_ppb :: int64 where
  "default_drift_ppb = 250000"

definition expected_magic :: "byte list" where
  "expected_magic = [0x42, 0x59, 0x5A, 0x54, 0x49, 0x4D, 0x45, 0x00, 0xff, 0xff, 0xff, 0xff]"

definition zerostamp :: byztime_stamp where
  "zerostamp = \<lparr>seconds = 0, nanoseconds = 0\<rparr>"

definition INT64_MAX :: int64 where
  "INT64_MAX = 9223372036854775807"

text \<open>The little-endian codecs of one \<open>atomic_int\<close>, as the four loops write them.\<close>

definition word_bytes :: "int32 \<Rightarrow> byte list" where
  "word_bytes w =
     [ucast (w AND 0xff), ucast (drop_bit 8 w AND 0xff),
      ucast (drop_bit 16 w AND 0xff), ucast (drop_bit 24 w AND 0xff)]"

definition bytes_word :: "byte \<Rightarrow> byte \<Rightarrow> byte \<Rightarrow> byte \<Rightarrow> int32" where
  "bytes_word b0 b1 b2 b3 =
     ucast b0 OR push_bit 8 (ucast b1) OR push_bit 16 (ucast b2) OR push_bit 24 (ucast b3)"

definition load_era :: "int32 list \<Rightarrow> byte list" where
  "load_era ws = concat (map (\<lambda>k. word_bytes (ws ! k)) [0..<4])"

definition store_era :: "byte list \<Rightarrow> int32 list" where
  "store_era bs =
     map (\<lambda>k. bytes_word (bs ! (4 * k)) (bs ! (4 * k + 1)) (bs ! (4 * k + 2)) (bs ! (4 * k + 3)))
       [0..<4]"

definition load_magic :: "int32 list \<Rightarrow> byte list" where
  "load_magic ws = concat (map (\<lambda>k. word_bytes (ws ! k)) [0..<3])"

definition store_magic :: "byte list \<Rightarrow> int32 list" where
  "store_magic bs =
     map (\<lambda>k. bytes_word (bs ! (4 * k)) (bs ! (4 * k + 1)) (bs ! (4 * k + 2)) (bs ! (4 * k + 3)))
       [0..<3]"

text \<open>
  The writes a call makes to the region, in program order. The region after the call is
  the region before it with these stores applied.
\<close>

datatype store =
    Store_real_offset byztime_stamp
  | Store_entry nat timedata_entry
  | Store_i int32
  | Store_era "byte list"
  | Store_magic "byte list"

fun do_store :: "timedata \<Rightarrow> store \<Rightarrow> timedata" where
  "do_store td (Store_real_offset s) = td\<lparr>real_offset := s\<rparr>"
| "do_store td (Store_entry k e) = td\<lparr>entries := (entries td)[k := e]\<rparr>"
| "do_store td (Store_i k) = td\<lparr>td_i := k\<rparr>"
| "do_store td (Store_era bs) = td\<lparr>era := store_era bs\<rparr>"
| "do_store td (Store_magic bs) = td\<lparr>magic := store_magic bs\<rparr>"

definition commit :: "timedata \<Rightarrow> store list \<Rightarrow> timedata" where
  "commit td stores = foldl do_store td stores"

section \<open>The context and the host\<close>

text \<open>
  \<open>struct byztime_ctx_s\<close> without its file descriptors and its pointer to the mapping:
  the mapping is the \<open>timedata\<close> argument of every function below.
\<close>

record byztime_ctx =
  drift_ppb :: int64
  min_rate_ppb :: int64
  max_rate_ppb :: int64
  prev_local_time :: byztime_stamp
  prev_offset :: byztime_stamp
  slew_mode :: bool
  slew_have_prev :: bool

text \<open>
  What the operating system answers during one call of the library.
  \<^item> \<open>clock_era\<close>: \<open>byztime_get_clock_era\<close>, the sixteen bytes of the boot id;
  \<^item> \<open>monotonic_raw\<close>, \<open>realtime\<close>: \<open>clock_gettime\<close> on the two clocks, as
    \<open>(tv_sec, tv_nsec)\<close>;
  \<^item> \<open>sigbus_key_init\<close>: the error of \<open>byztime_init_sigbus_key\<close>, if any;
  \<^item> \<open>malloc_ctx\<close>: the block \<open>malloc\<close> returns, with its indeterminate content;
  \<^item> \<open>open_file\<close>, \<open>lock_file\<close>, \<open>mmap_file\<close>: the errors of \<open>open\<close>,
    \<open>acquire_lock\<close> and \<open>mmap\<close>, if any; \<open>fstat_size\<close>: \<open>st_size\<close>;
    \<open>posix_fallocate_ret\<close>: the value \<open>posix_fallocate\<close> returns;
  \<^item> \<open>setspecific_ret\<close>: the value of \<open>pthread_setspecific(sigbus_key, &jmpbuf)\<close>;
  \<^item> \<open>page_fault\<close>: reading the mapping raises \<open>SIGBUS\<close> with \<open>BUS_ADRERR\<close> and
    \<open>byztime_handle_sigbus\<close> runs, so that \<open>sigsetjmp\<close> returns a second time;
  \<^item> \<open>mutexattr_init_ret\<close>, \<open>mutexattr_setpshared_ret\<close>, \<open>mutex_init_ret\<close>,
    \<open>mutex_lock_ret\<close>, \<open>mutex_unlock_ret\<close>: the values of the pthread mutex calls.
  Resetting the thread-local slot to \<open>NULL\<close> is asserted to succeed in the source and
  is taken to succeed here.
\<close>

record host =
  clock_era :: "errno + byte list"
  monotonic_raw :: "errno + byztime_stamp"
  realtime :: "errno + byztime_stamp"
  sigbus_key_init :: "errno option"
  malloc_ctx :: "errno + byztime_ctx"
  open_file :: "errno option"
  lock_file :: "errno option"
  fstat_size :: "errno + int"
  posix_fallocate_ret :: int
  mmap_file :: "errno option"
  setspecific_ret :: int
  page_fault :: bool
  mutexattr_init_ret :: int
  mutexattr_setpshared_ret :: int
  mutex_init_ret :: int
  mutex_lock_ret :: int
  mutex_unlock_ret :: int

section \<open>Clocks (byztime\_common.c)\<close>

definition byztime_get_local_time :: "host \<Rightarrow> byztime_stamp outcome" where
  "byztime_get_local_time h =
     (case monotonic_raw h of
        Inl e \<Rightarrow> Failure e
      | Inr ts \<Rightarrow> checked (byztime_stamp_normalize ts))"

definition byztime_get_real_time :: "host \<Rightarrow> byztime_stamp outcome" where
  "byztime_get_real_time h =
     (case realtime h of
        Inl e \<Rightarrow> Failure e
      | Inr ts \<Rightarrow> checked (byztime_stamp_normalize ts))"

section \<open>Consumer (byztime\_consumer.c)\<close>

text \<open>
  \<open>byztime_open_ro\<close>. The fields of the context other than \<open>drift_ppb\<close> and
  \<open>slew_mode\<close> keep what \<open>malloc\<close> left in them.
\<close>

definition byztime_open_ro :: "host \<Rightarrow> timedata \<Rightarrow> byztime_ctx outcome" where
  "byztime_open_ro h td =
     (case sigbus_key_init h of
        Some e \<Rightarrow> Failure e
      | None \<Rightarrow>
     (case clock_era h of
        Inl e \<Rightarrow> Failure e
      | Inr expected_era \<Rightarrow>
     (case malloc_ctx h of
        Inl e \<Rightarrow> Failure e
      | Inr ctx \<Rightarrow>
     (case open_file h of
        Some e \<Rightarrow> Failure e
      | None \<Rightarrow>
     (case fstat_size h of
        Inl e \<Rightarrow> Failure e
      | Inr st_size \<Rightarrow>
          if st_size < 4096 then Failure EPROTO
          else
     (case mmap_file h of
        Some e \<Rightarrow> Failure e
      | None \<Rightarrow>
          if setspecific_ret h \<noteq> 0 then Failure (Other_errno (setspecific_ret h))
          else if page_fault h then Failure EPROTO
          else if load_magic (magic td) \<noteq> expected_magic then Failure EPROTO
          else if load_era (era td) \<noteq> expected_era then Failure ECONNREFUSED
          else Success (ctx\<lparr>drift_ppb := default_drift_ppb, slew_mode := False\<rparr>)))))))"

definition nsec_out_of_range :: "byztime_stamp \<Rightarrow> bool" where
  "nsec_out_of_range s \<longleftrightarrow> nanoseconds s <s 0 \<or> billion \<le>s nanoseconds s"

definition get_and_validate_entry :: "host \<Rightarrow> timedata \<Rightarrow> timedata_entry outcome" where
  "get_and_validate_entry h td =
     (if setspecific_ret h \<noteq> 0 then Failure (Other_errno (setspecific_ret h))
      else if page_fault h then Failure EPROTO
      else
        let i = td_i td
        in if i <s 0 \<or> NUM_ENTRIES \<le>s i then Failure EPROTO
           else
             let entry = entries td ! nat (sint i)
             in if nsec_out_of_range (offset entry) \<or> nsec_out_of_range (error entry) \<or>
                   nsec_out_of_range (as_of entry)
                then Failure EPROTO
                else Success entry)"

definition byztime_set_drift :: "byztime_ctx \<Rightarrow> int64 \<Rightarrow> byztime_ctx" where
  "byztime_set_drift ctx d = ctx\<lparr>drift_ppb := d\<rparr>"

definition byztime_get_drift :: "byztime_ctx \<Rightarrow> int64" where
  "byztime_get_drift ctx = drift_ppb ctx"

text \<open>\<open>byztime_slew\<close>; \<open>maxerror\<close> is \<open>None\<close> for a \<open>NULL\<close> pointer.\<close>

definition byztime_slew ::
  "host \<Rightarrow> timedata \<Rightarrow> byztime_ctx \<Rightarrow> int64 \<Rightarrow> int64 \<Rightarrow> byztime_stamp option
     \<Rightarrow> unit outcome \<times> byztime_ctx" where
  "byztime_slew h td ctx min_rate max_rate maxerror =
     (case get_and_validate_entry h td of
        Failure e \<Rightarrow> (Failure e, ctx)
      | Crashed \<Rightarrow> (Crashed, ctx)
      | Success entry \<Rightarrow>
          if maxerror \<noteq> None \<and> 0 < byztime_stamp_cmp (error entry) (the maxerror)
          then (Failure ERANGE, ctx)
          else (Success (),
                ctx\<lparr>slew_mode := True, slew_have_prev := False,
                    min_rate_ppb := min_rate, max_rate_ppb := max_rate\<rparr>))"

definition byztime_step :: "byztime_ctx \<Rightarrow> unit outcome \<times> byztime_ctx" where
  "byztime_step ctx = (Success (), ctx\<lparr>slew_mode := False\<rparr>)"

text \<open>
  The branch of \<open>byztime_get_local_time_and_offset\<close> for \<open>slew_mode\<close> with
  \<open>slew_have_prev\<close>: the estimate \<open>my_est\<close>. The upper bound is computed only when
  \<open>max_rate_ppb < INT64_MAX\<close>, and read only then.
\<close>

definition slew_estimate ::
  "byztime_ctx \<Rightarrow> timedata_entry \<Rightarrow> byztime_stamp \<Rightarrow> byztime_stamp outcome" where
  "slew_estimate ctx entry my_local_time =
     and_then (checked (byztime_stamp_sub my_local_time (prev_local_time ctx)))
       (\<lambda>local_time_since_prev.
     and_then (checked (byztime_stamp_sub (offset entry) (prev_offset ctx)))
       (\<lambda>offset_adj_since_prev.
     and_then (checked (byztime_stamp_add local_time_since_prev offset_adj_since_prev))
       (\<lambda>global_time_since_prev.
     and_then (checked_scale (byztime_stamp_scale global_time_since_prev (min_rate_ppb ctx)))
       (\<lambda>min_global_time_since_prev.
     and_then (if max_rate_ppb ctx <s INT64_MAX
               then and_then
                      (checked_scale
                         (byztime_stamp_scale global_time_since_prev (max_rate_ppb ctx)))
                      (\<lambda>m. Success (Some m))
               else Success None)
       (\<lambda>max_global_time_since_prev.
     if byztime_stamp_cmp global_time_since_prev min_global_time_since_prev < 0
     then
       and_then (checked (byztime_stamp_sub min_global_time_since_prev global_time_since_prev))
         (\<lambda>shortfall_global_time_since_prev.
       checked (byztime_stamp_add (offset entry) shortfall_global_time_since_prev))
     else if max_global_time_since_prev \<noteq> None \<and>
             0 < byztime_stamp_cmp global_time_since_prev (the max_global_time_since_prev)
     then
       and_then (checked (byztime_stamp_sub global_time_since_prev
                            (the max_global_time_since_prev)))
         (\<lambda>excess_global_time_since_prev.
       checked (byztime_stamp_sub (offset entry) excess_global_time_since_prev))
     else Success (offset entry))))))"

text \<open>
  \<open>byztime_get_local_time_and_offset\<close> returns \<open>(local_time, min, est, max)\<close> and the
  context as the call leaves it. A caller that passes \<open>NULL\<close> for an output does not
  receive that component.
\<close>

definition byztime_get_local_time_and_offset ::
  "host \<Rightarrow> timedata \<Rightarrow> byztime_ctx
     \<Rightarrow> (byztime_stamp \<times> byztime_stamp \<times> byztime_stamp \<times> byztime_stamp) outcome \<times> byztime_ctx"
  where
  "byztime_get_local_time_and_offset h td ctx =
     (case builtin_mul_overflow (drift_ppb ctx) 2 of
        (True, _) \<Rightarrow> (Failure EOVERFLOW, ctx)
      | (False, drift_ppb_x2) \<Rightarrow>
         (case
            and_then (get_and_validate_entry h td) (\<lambda>entry.
            and_then (byztime_get_local_time h) (\<lambda>my_local_time.
            and_then (checked (byztime_stamp_sub my_local_time (as_of entry))) (\<lambda>age.
            and_then (checked_scale (byztime_stamp_scale age drift_ppb_x2)) (\<lambda>scaled_age.
            and_then (checked (byztime_stamp_add (error entry) scaled_age)) (\<lambda>err.
            and_then (checked (byztime_stamp_sub (offset entry) err)) (\<lambda>my_min.
            and_then (checked (byztime_stamp_add (offset entry) err)) (\<lambda>my_max.
            Success (entry, my_local_time, my_min, my_max))))))))
          of
            Failure e \<Rightarrow> (Failure e, ctx)
          | Crashed \<Rightarrow> (Crashed, ctx)
          | Success (entry, my_local_time, my_min, my_max) \<Rightarrow>
              if slew_mode ctx then
                (case (if slew_have_prev ctx then slew_estimate ctx entry my_local_time
                       else Success (offset entry))
                 of
                   Failure e \<Rightarrow> (Failure e, ctx)
                 | Crashed \<Rightarrow> (Crashed, ctx)
                 | Success my_est \<Rightarrow>
                     (Success (my_local_time, my_min, my_est, my_max),
                      ctx\<lparr>prev_local_time := my_local_time, prev_offset := my_est,
                          slew_have_prev := True\<rparr>))
              else (Success (my_local_time, my_min, offset entry, my_max), ctx)))"

text \<open>\<open>byztime_get_offset\<close> returns \<open>(min, est, max)\<close>.\<close>

definition byztime_get_offset ::
  "host \<Rightarrow> timedata \<Rightarrow> byztime_ctx
     \<Rightarrow> (byztime_stamp \<times> byztime_stamp \<times> byztime_stamp) outcome \<times> byztime_ctx" where
  "byztime_get_offset h td ctx =
     (case byztime_get_local_time_and_offset h td ctx of
        (r, ctx') \<Rightarrow> (and_then r (\<lambda>(local_time, my_min, my_est, my_max).
                                    Success (my_min, my_est, my_max)), ctx'))"

definition byztime_get_global_time ::
  "host \<Rightarrow> timedata \<Rightarrow> byztime_ctx
     \<Rightarrow> (byztime_stamp \<times> byztime_stamp \<times> byztime_stamp) outcome \<times> byztime_ctx" where
  "byztime_get_global_time h td ctx =
     (case byztime_get_local_time_and_offset h td ctx of
        (r, ctx') \<Rightarrow>
          (and_then r (\<lambda>(local_time, my_min0, my_est0, my_max0).
           and_then (checked (byztime_stamp_add my_min0 local_time)) (\<lambda>my_min.
           and_then (checked (byztime_stamp_add my_est0 local_time)) (\<lambda>my_est.
           and_then (checked (byztime_stamp_add my_max0 local_time)) (\<lambda>my_max.
           Success (my_min, my_est, my_max))))), ctx'))"

section \<open>Provider (byztime\_provider.c)\<close>

text \<open>
  The initialisation block of \<open>byztime_open_rw\<close>, after the file is mapped: first-time
  initialisation, re-initialisation after a reboot, or nothing.
\<close>

definition unknown_error :: byztime_stamp where
  "unknown_error = \<lparr>seconds = signed_drop_bit 1 INT64_MAX, nanoseconds = 0\<rparr>"

definition init_timedata :: "host \<Rightarrow> timedata \<Rightarrow> byte list \<Rightarrow> unit outcome \<times> store list" where
  "init_timedata h td expected_era =
     (if load_magic (magic td) \<noteq> expected_magic \<or> td_i td <s 0 \<or> NUM_ENTRIES \<le>s td_i td
      then
        (case
           and_then (byztime_get_local_time h) (\<lambda>local_time.
           and_then (byztime_get_real_time h) (\<lambda>real_time.
           and_then (checked (byztime_stamp_sub real_time local_time)) (\<lambda>off.
           Success \<lparr>offset = off, error = unknown_error, as_of = local_time\<rparr>)))
         of
           Failure e \<Rightarrow> (Failure e, [Store_real_offset zerostamp])
         | Crashed \<Rightarrow> (Crashed, [Store_real_offset zerostamp])
         | Success entry \<Rightarrow>
             (Success (),
              [Store_real_offset zerostamp, Store_entry 0 entry, Store_i 0,
               Store_era expected_era, Store_magic expected_magic]))
      else if load_era (era td) \<noteq> expected_era
      then
        (case
           and_then (byztime_get_local_time h) (\<lambda>local_time.
           and_then (byztime_get_real_time h) (\<lambda>real_time.
           and_then (checked (byztime_stamp_add real_time (real_offset td))) (\<lambda>global_time.
           and_then (checked (byztime_stamp_sub global_time local_time)) (\<lambda>off.
           Success \<lparr>offset = off, error = unknown_error, as_of = local_time\<rparr>))))
         of
           Failure e \<Rightarrow> (Failure e, [])
         | Crashed \<Rightarrow> (Crashed, [])
         | Success entry \<Rightarrow>
             (Success (), [Store_entry 0 entry, Store_i 0, Store_era expected_era]))
      else (Success (), []))"

text \<open>
  \<open>byztime_open_rw\<close>: the context, and the stores made to the mapped region. The test
  on \<open>posix_fallocate\<close> is the source's (\<open>< 0\<close>).
\<close>

definition byztime_open_rw :: "host \<Rightarrow> timedata \<Rightarrow> byztime_ctx outcome \<times> store list" where
  "byztime_open_rw h td =
     (case sigbus_key_init h of
        Some e \<Rightarrow> (Failure e, [])
      | None \<Rightarrow>
     (case clock_era h of
        Inl e \<Rightarrow> (Failure e, [])
      | Inr expected_era \<Rightarrow>
     (case malloc_ctx h of
        Inl e \<Rightarrow> (Failure e, [])
      | Inr ctx \<Rightarrow>
     (case open_file h of
        Some e \<Rightarrow> (Failure e, [])
      | None \<Rightarrow>
     (case lock_file h of
        Some e \<Rightarrow> (Failure e, [])
      | None \<Rightarrow>
          if posix_fallocate_ret h < 0
          then (Failure (Other_errno (posix_fallocate_ret h)), [])
          else
     (case mmap_file h of
        Some e \<Rightarrow> (Failure e, [])
      | None \<Rightarrow>
     (case init_timedata h td expected_era of
        (Failure e, stores) \<Rightarrow> (Failure e, stores)
      | (Crashed, stores) \<Rightarrow> (Crashed, stores)
      | (Success u, stores) \<Rightarrow>
          if mutexattr_init_ret h \<noteq> 0
          then (Failure (Other_errno (mutexattr_init_ret h)), stores)
          else if mutexattr_setpshared_ret h \<noteq> 0
          then (Failure (Other_errno (mutexattr_setpshared_ret h)), stores)
          else if mutex_init_ret h \<noteq> 0
          then (Failure (Other_errno (mutex_init_ret h)), stores)
          else (Success (ctx\<lparr>drift_ppb := default_drift_ppb, slew_mode := False\<rparr>),
                stores))))))))"

text \<open>
  \<open>byztime_set_offset\<close>; \<open>as_of\<close> is \<open>None\<close> for a \<open>NULL\<close> pointer. The index is
  incremented as an \<open>int\<close> and the slot written without a bounds check: outside
  \<open>-1 \<le> i < NUM_ENTRIES\<close> the behaviour is undefined.
\<close>

definition byztime_set_offset ::
  "host \<Rightarrow> timedata \<Rightarrow> byztime_stamp \<Rightarrow> byztime_stamp \<Rightarrow> byztime_stamp option
     \<Rightarrow> unit outcome \<times> store list" where
  "byztime_set_offset h td offs maxerror as_of_arg =
     (case (case as_of_arg of None \<Rightarrow> byztime_get_local_time h | Some a \<Rightarrow> Success a) of
        Failure e \<Rightarrow> (Failure e, [])
      | Crashed \<Rightarrow> (Crashed, [])
      | Success a \<Rightarrow>
          let entry = \<lparr>offset = offs, error = maxerror, as_of = a\<rparr>
          in if mutex_lock_ret h \<noteq> 0 then (Failure (Other_errno (mutex_lock_ret h)), [])
             else if td_i td <s - 1 \<or> NUM_ENTRIES \<le>s td_i td then (Crashed, [])
             else
               let i = (if td_i td + 1 = NUM_ENTRIES then 0 else td_i td + 1);
                   stores = [Store_entry (nat (sint i)) entry, Store_i i]
               in if mutex_unlock_ret h \<noteq> 0
                  then (Failure (Other_errno (mutex_unlock_ret h)), stores)
                  else (Success (), stores))"

section \<open>Example inputs\<close>

text \<open>
  A host on which every call succeeds, with the two clocks reading \<open>lt\<close> and \<open>rt\<close>; the
  content of a freshly allocated context; an all-zero region, as \<open>posix_fallocate\<close>
  leaves a new file; and a region in steady state whose current slot, slot 1, holds \<open>e\<close>.
\<close>

definition boot_era :: "byte list" where
  "boot_era = [1, 2, 3, 4, 5, 6, 7, 8, 9, 10, 11, 12, 13, 14, 15, 16]"

definition blank_ctx :: byztime_ctx where
  "blank_ctx = \<lparr>drift_ppb = 0, min_rate_ppb = 0, max_rate_ppb = 0,
                 prev_local_time = zerostamp, prev_offset = zerostamp,
                 slew_mode = False, slew_have_prev = False\<rparr>"

definition quiet_host :: "byztime_stamp \<Rightarrow> byztime_stamp \<Rightarrow> host" where
  "quiet_host lt rt =
     \<lparr>clock_era = Inr boot_era, monotonic_raw = Inr lt, realtime = Inr rt,
      sigbus_key_init = None, malloc_ctx = Inr blank_ctx, open_file = None, lock_file = None,
      fstat_size = Inr 4096, posix_fallocate_ret = 0, mmap_file = None,
      setspecific_ret = 0, page_fault = False,
      mutexattr_init_ret = 0, mutexattr_setpshared_ret = 0, mutex_init_ret = 0,
      mutex_lock_ret = 0, mutex_unlock_ret = 0\<rparr>"

definition zero_entry :: timedata_entry where
  "zero_entry = \<lparr>offset = zerostamp, error = zerostamp, as_of = zerostamp\<rparr>"

definition fresh_region :: timedata where
  "fresh_region =
     \<lparr>magic = [0, 0, 0], td_i = 0, era = [0, 0, 0, 0], real_offset = zerostamp,
      entries = replicate 62 zero_entry\<rparr>"

definition live_region :: "timedata_entry \<Rightarrow> timedata" where
  "live_region e =
     \<lparr>magic = store_magic expected_magic, td_i = 1, era = store_era boot_era,
      real_offset = zerostamp, entries = (replicate 62 zero_entry)[1 := e]\<rparr>"

text \<open>The stamp \<open>(s, n)\<close>, as the examples write it.\<close>

definition stamp :: "int64 \<Rightarrow> int64 \<Rightarrow> byztime_stamp" where
  "stamp s n = \<lparr>seconds = s, nanoseconds = n\<rparr>"

text \<open>
  A context in slew mode with a previous read whose recorded offset is the least stamp,
  and the entry \<open>\<lparr>offset = (1, 0), error = (0, 1000), as_of = (0, 0)\<rparr>\<close>.
\<close>

definition slewing_ctx :: byztime_ctx where
  "slewing_ctx = \<lparr>drift_ppb = 250000, min_rate_ppb = 0, max_rate_ppb = 1000000000,
                   prev_local_time = stamp 0 0, prev_offset = stamp (- 9223372036854775808) 0,
                   slew_mode = True, slew_have_prev = True\<rparr>"

definition sample_entry :: timedata_entry where
  "sample_entry = \<lparr>offset = stamp 1 0, error = stamp 0 1000, as_of = stamp 0 0\<rparr>"

text \<open>
  The context of a consumer in step mode with the default drift; an era other than the
  host's; the entries of the publish-and-read and of the slew scenarios; and the context
  of the slew scenario after \<open>byztime_slew\<close> with rates \<open>0\<close> and \<open>10\<^sup>9\<close>, and after
  its first read at local time \<open>(0, 0)\<close>.
\<close>

definition step_ctx :: byztime_ctx where
  "step_ctx = blank_ctx\<lparr>drift_ppb := 250000\<rparr>"

definition other_era :: "byte list" where
  "other_era = replicate 16 0"

definition publish_entry :: timedata_entry where
  "publish_entry = \<lparr>offset = stamp 5 0, error = stamp 0 1000000, as_of = stamp 200 0\<rparr>"

definition first_entry :: timedata_entry where
  "first_entry = \<lparr>offset = stamp 0 0, error = stamp 0 0, as_of = stamp 0 0\<rparr>"

definition second_entry :: timedata_entry where
  "second_entry = \<lparr>offset = stamp 10 0, error = stamp 0 0, as_of = stamp 0 0\<rparr>"

definition slew_ctx_0 :: byztime_ctx where
  "slew_ctx_0 = snd (byztime_slew (quiet_host (stamp 0 0) (stamp 0 0)) (live_region first_entry)
                       step_ctx 0 1000000000 None)"

definition slew_ctx_1 :: byztime_ctx where
  "slew_ctx_1 = snd (byztime_get_global_time (quiet_host (stamp 0 0) (stamp 0 0))
                       (live_region first_entry) slew_ctx_0)"

section \<open>Machine arithmetic read as integers\<close>

lemma stb63: "signed_take_bit 63 (x::int) = x \<longleftrightarrow> - 9223372036854775808 \<le> x \<and> x < 9223372036854775808"
  by (simp add: signed_take_bit_int_eq_self_iff)

lemma sint_woi_iff: "sint (word_of_int x :: int64) = x \<longleftrightarrow> - 9223372036854775808 \<le> x \<and> x < 9223372036854775808"
  by (simp add: sint_sbintrunc' stb63)

lemma sint_woi: "- 9223372036854775808 \<le> x \<Longrightarrow> x < 9223372036854775808 \<Longrightarrow> sint (word_of_int x :: int64) = x"
  by (simp add: sint_woi_iff)

lemma sint_bounds: "- 9223372036854775808 \<le> sint (w :: int64)" "sint (w :: int64) < 9223372036854775808"
  using sint_ge [of w] sint_lt [of w] by simp_all

lemma sint_billion: "sint billion = 1000000000"
  by (simp add: billion_def)

lemma add_ov: "builtin_add_overflow a b =
   (\<not> (- 9223372036854775808 \<le> sint a + sint b \<and> sint a + sint b < 9223372036854775808), word_of_int (sint a + sint b))"
  by (simp add: builtin_add_overflow_def sint_word_ariths stb63)

lemma sdiv_billion: "(n::int) sdiv 1000000000 = n div 1000000000 + (if n < 0 \<and> n mod 1000000000 \<noteq> 0 then 1 else 0)"
  by (auto simp add: signed_divide_int_eq_divide_int sgn_if dvd_eq_mod_eq_0)

lemma smod_billion: "(n::int) smod 1000000000 = n mod 1000000000 - (if n < 0 \<and> n mod 1000000000 \<noteq> 0 then 1000000000 else 0)"
  by (auto simp add: signed_modulo_int_eq_modulo_int sgn_if dvd_eq_mod_eq_0)

lemma normalize_eq:
  "byztime_stamp_normalize st =
     (\<not> (- 9223372036854775808 \<le> sint (seconds st) + sint (nanoseconds st) div 1000000000 \<and>
          sint (seconds st) + sint (nanoseconds st) div 1000000000 < 9223372036854775808),
      \<lparr>seconds = word_of_int (sint (seconds st) + sint (nanoseconds st) div 1000000000),
       nanoseconds = word_of_int (sint (nanoseconds st) mod 1000000000)\<rparr>)"
proof -
  define n where "n = sint (nanoseconds st)"
  define s where "s = sint (seconds st)"
  have nb: "- 9223372036854775808 \<le> n" "n < 9223372036854775808"
    and sb: "- 9223372036854775808 \<le> s" "s < 9223372036854775808"
    unfolding n_def s_def by (rule sint_bounds)+
  have mb: "0 \<le> n mod 1000000000" "n mod 1000000000 < 1000000000" by simp_all
  have qb: "- 9223372037 \<le> n div 1000000000" "n div 1000000000 \<le> 9223372036"
    using nb by linarith+
  show ?thesis
  proof (cases "0 \<le> n \<and> n < 1000000000")
    case True
    then have "n div 1000000000 = 0" "n mod 1000000000 = n" by simp_all
    with True sb show ?thesis
      unfolding byztime_stamp_normalize_def
      by (simp add: word_sle_eq word_sless_alt sint_billion n_def [symmetric] s_def [symmetric])
        (simp add: n_def s_def)
  next
    case False
    have nr: "\<not> (0 \<le>s nanoseconds st \<and> nanoseconds st <s billion)"
      using False by (simp add: word_sle_eq word_sless_alt sint_billion n_def)
    show ?thesis
    proof (cases "n < 0 \<and> n mod 1000000000 \<noteq> 0")
      case False
      then have d: "n sdiv 1000000000 = n div 1000000000" and m: "n smod 1000000000 = n mod 1000000000"
        by (simp_all add: sdiv_billion smod_billion)
      have sd: "sint (word_of_int (n div 1000000000) :: int64) = n div 1000000000"
        using qb by (intro sint_woi) linarith+
      have sm: "sint (word_of_int (n mod 1000000000) :: int64) = n mod 1000000000"
        using mb by (intro sint_woi) linarith+
      have nneg: "\<not> n mod 1000000000 < 0" by simp
      show ?thesis
        apply (subst byztime_stamp_normalize_def)
        apply (subst if_not_P [OF nr])
        apply (simp add: Let_def c_div_def c_mod_def sint_billion n_def [symmetric] d m add_ov
            word_sless_alt sd sm s_def [symmetric] nneg del: of_int_add)
        done
    next
      case True
      then have d: "n sdiv 1000000000 = n div 1000000000 + 1" and m: "n smod 1000000000 = n mod 1000000000 - 1000000000"
        by (simp_all add: sdiv_billion smod_billion)
      define q where "q = n div 1000000000"
      define r where "r = n mod 1000000000"
      have q0: "q + 1 \<le> 0" using True unfolding q_def by linarith
      have qb': "- 9223372037 \<le> q" using qb by (simp add: q_def)
      have rb: "0 \<le> r" "r < 1000000000" unfolding r_def by simp_all
      have sd: "sint (word_of_int (q + 1) :: int64) = q + 1"
        using qb' q0 by (intro sint_woi) linarith+
      have sm: "sint (word_of_int (r - 1000000000) :: int64) = r - 1000000000"
        using rb by (intro sint_woi) linarith+
      have neg: "r - 1000000000 < 0" using rb by linarith
      define w1 :: int64 where "w1 = word_of_int (s + (q + 1))"
      have E: "byztime_stamp_normalize st =
          (\<not> (- 9223372036854775808 \<le> s + (q + 1) \<and> s + (q + 1) < 9223372036854775808)
             \<or> sint (w1 - 1) \<noteq> sint w1 - sint (1::int64),
           \<lparr>seconds = w1 - 1, nanoseconds = word_of_int (r - 1000000000) + billion\<rparr>)"
        apply (subst byztime_stamp_normalize_def)
        apply (subst if_not_P [OF nr])
        apply (simp add: Let_def c_div_def c_mod_def sint_billion n_def [symmetric] d m add_ov
            builtin_sub_overflow_def q_def [symmetric] r_def [symmetric]
            word_sless_alt sd sm neg rb s_def [symmetric] w1_def [symmetric]
            del: of_int_add of_int_diff)
        done
      have v1: "w1 - 1 = word_of_int (s + q)" by (simp add: w1_def)
      have v2: "(word_of_int (r - 1000000000) :: int64) + billion = word_of_int r"
        by (simp add: billion_def)
      have F: "(\<not> (- 9223372036854775808 \<le> s + (q + 1) \<and> s + (q + 1) < 9223372036854775808)
             \<or> sint (w1 - 1) \<noteq> sint w1 - sint (1::int64))
           = (\<not> (- 9223372036854775808 \<le> s + q \<and> s + q < 9223372036854775808))"
      proof (cases "- 9223372036854775808 \<le> s + (q + 1)")
        case False
        then show ?thesis by auto
      next
        case True
        with q0 sb have r1: "sint w1 = s + (q + 1)"
          unfolding w1_def by (intro sint_woi) linarith+
        have one: "sint (1::int64) = 1" by simp
        show ?thesis
          unfolding v1 r1 one using True q0 sb sint_woi_iff [of "s + q"] by auto
      qed
      show ?thesis
        apply (subst E)
        apply (subst F)
        apply (subst v1)
        apply (subst v2)
        apply (simp only: q_def r_def s_def n_def)
        done
    qed
  qed
qed


lemma normalize_nsec: "sint (nanoseconds (snd (byztime_stamp_normalize st))) = sint (nanoseconds st) mod 1000000000"
proof -
  have "0 \<le> sint (nanoseconds st) mod 1000000000" "sint (nanoseconds st) mod 1000000000 < 1000000000"
    by simp_all
  then have "sint (word_of_int (sint (nanoseconds st) mod 1000000000) :: int64) = sint (nanoseconds st) mod 1000000000"
    by (intro sint_woi) linarith+
  then show ?thesis by (simp add: normalize_eq)
qed

lemma downscale_billion_normalized:
  assumes nb: "0 \<le> sint (nanoseconds t)" "sint (nanoseconds t) < 1000000000"
  shows "byztime_stamp_normalize
           \<lparr>seconds = c_div (seconds t) billion * billion,
            nanoseconds = round_residue (c_mod (nanoseconds t * billion) billion)
               (c_mod (seconds t) billion * billion + c_div (nanoseconds t * billion) billion)\<rparr>
         = (False, t)"
proof -
  define S where "S = sint (seconds t)"
  define N where "N = sint (nanoseconds t)"
  define Q where "Q = S sdiv 1000000000"
  define R where "R = S smod 1000000000"
  have Sb: "- 9223372036854775808 \<le> S" "S < 9223372036854775808"
    unfolding S_def by (rule sint_bounds)+
  have Nb: "0 \<le> N" "N < 1000000000" using nb by (simp_all add: N_def)
  have QR: "Q * 1000000000 + R = S" unfolding Q_def R_def by (rule sdiv_mult_smod_eq)
  have Rb: "- 1000000000 < R" "R < 1000000000" "0 \<le> S \<Longrightarrow> 0 \<le> R" "S \<le> 0 \<Longrightarrow> R \<le> 0"
    unfolding R_def using smod_int_range [of 1000000000 S] smod_int_compares [of S 1000000000] by auto
  have QBb: "- 9223372036854775808 \<le> Q * 1000000000" "Q * 1000000000 < 9223372036854775808"
    using QR Rb Sb by linarith+
  have RBb: "- 1000000000000000000 < R * 1000000000" "R * 1000000000 < 1000000000000000000"
    using Rb by linarith+
  have NBb: "0 \<le> N * 1000000000" "N * 1000000000 < 1000000000000000000"
    using Nb by linarith+
  have atto: "sint (nanoseconds t * billion) = N * 1000000000"
  proof -
    have "nanoseconds t * billion = word_of_int (N * 1000000000)"
      by (simp add: N_def billion_def)
    moreover have "sint (word_of_int (N * 1000000000) :: int64) = N * 1000000000"
      using NBb by (intro sint_woi) linarith+
    ultimately show ?thesis by simp
  qed
  have Nsd: "N * 1000000000 sdiv 1000000000 = N" "N * 1000000000 smod 1000000000 = 0"
    using Nb by (simp_all add: sdiv_billion smod_billion)
  have res: "c_mod (nanoseconds t * billion) billion = 0"
    by (simp add: c_mod_def atto sint_billion Nsd)
  have rr: "round_residue 0 x = x" for x
    by (simp add: round_residue_def half_billion_def word_sless_alt)
  have cd: "c_div (nanoseconds t * billion) billion = nanoseconds t"
  proof -
    have "c_div (nanoseconds t * billion) billion = word_of_int N"
      by (simp add: c_div_def atto sint_billion Nsd)
    then show ?thesis by (simp add: N_def)
  qed
  have sec: "c_div (seconds t) billion * billion = word_of_int (Q * 1000000000)"
    by (simp add: c_div_def sint_billion Q_def S_def billion_def)
  have nsc: "c_mod (seconds t) billion * billion + nanoseconds t = word_of_int (R * 1000000000 + N)"
    by (simp add: c_mod_def sint_billion R_def S_def billion_def N_def)
  have s1: "sint (word_of_int (Q * 1000000000) :: int64) = Q * 1000000000"
    using QBb by (intro sint_woi) linarith+
  have s2: "sint (word_of_int (R * 1000000000 + N) :: int64) = R * 1000000000 + N"
    using RBb Nb by (intro sint_woi) linarith+
  have dv: "(R * 1000000000 + N) div 1000000000 = R" "(R * 1000000000 + N) mod 1000000000 = N"
    using Nb by simp_all
  have tot: "Q * 1000000000 + R = S" by (rule QR)
  show ?thesis
    apply (subst res, subst rr, subst cd, subst sec, subst nsc)
    apply (subst normalize_eq)
    apply (simp only: byztime_stamp.simps s1 s2 dv tot)
    using Sb apply (simp add: S_def N_def)
    done
qed

lemma scale_billion: "byztime_stamp_scale st billion = Some (byztime_stamp_normalize st)"
proof -
  obtain ov t where n: "byztime_stamp_normalize st = (ov, t)" by (cases "byztime_stamp_normalize st")
  have "sint (nanoseconds t) = sint (nanoseconds st) mod 1000000000"
    using normalize_nsec [of st] n by simp
  then have nb: "0 \<le> sint (nanoseconds t)" "sint (nanoseconds t) < 1000000000" by simp_all
  have g: "0 \<le>s billion \<and> billion \<le>s billion" by (simp add: billion_def word_sle_eq)
  show ?thesis
    unfolding byztime_stamp_scale_def byztime_stamp_downscale_def
    by (simp only: g if_True n Let_def split not_True_eq_False if_False
          downscale_billion_normalized [OF nb] simp_thms)
qed

section \<open>Scaling by one billion\<close>

text \<open>
  C9. For every stamp \<open>s\<close> whose normalisation does not overflow, scaling \<open>s\<close> by
  \<open>10\<^sup>9\<close> parts per billion returns exactly the normalised \<open>s\<close> and reports success:
  the attosecond residue is zero, so the rounding step changes nothing.
\<close>

theorem scale_billion_is_normalize:
  assumes "\<not> fst (byztime_stamp_normalize s)"
  shows "byztime_stamp_scale s 1000000000 = Some (False, snd (byztime_stamp_normalize s))"
  using assms scale_billion [of s] by (cases "byztime_stamp_normalize s") (simp add: billion_def)

theorem scale_billion_is_normalize_witness:
  "\<not> fst (byztime_stamp_normalize (stamp (- 3) 2500000000)) \<and>
   byztime_stamp_scale (stamp (- 3) 2500000000) 1000000000 = Some (False, stamp (- 1) 500000000)"
proof -
  have h: "\<not> fst (byztime_stamp_normalize (stamp (- 3) 2500000000))"
    by code_simp
  have v: "snd (byztime_stamp_normalize (stamp (- 3) 2500000000)) = stamp (- 1) 500000000"
    by code_simp
  from scale_billion_is_normalize [OF h] v h show ?thesis by simp
qed

section \<open>The consumer read path\<close>

lemma nsec_out_of_range_iff:
  "nsec_out_of_range s \<longleftrightarrow> \<not> (0 \<le> sint (nanoseconds s) \<and> sint (nanoseconds s) < 1000000000)"
  by (auto simp add: nsec_out_of_range_def word_sle_eq word_sless_alt sint_billion)

lemma index_out_of_range_iff:
  "k <s 0 \<or> NUM_ENTRIES \<le>s k \<longleftrightarrow> \<not> (0 \<le> sint k \<and> sint k < 62)"
  by (auto simp add: NUM_ENTRIES_def word_sle_eq word_sless_alt)

text \<open>
  C6. With the fault-recovery scope registered and no page fault, reading an entry
  fails with \<open>EPROTO\<close> if and only if the stored index is outside \<open>[0, 62)\<close> or one of
  the three nanoseconds fields of the selected slot is outside \<open>[0, 10\<^sup>9)\<close>; otherwise
  it returns the copy of that slot.
\<close>

theorem read_protocol_error_iff:
  assumes "setspecific_ret h = 0" and "\<not> page_fault h"
  shows "(get_and_validate_entry h td = Failure EPROTO \<longleftrightarrow>
            \<not> (0 \<le> sint (td_i td) \<and> sint (td_i td) < 62) \<or>
            \<not> (0 \<le> sint (nanoseconds (offset (entries td ! nat (sint (td_i td))))) \<and>
               sint (nanoseconds (offset (entries td ! nat (sint (td_i td))))) < 1000000000) \<or>
            \<not> (0 \<le> sint (nanoseconds (error (entries td ! nat (sint (td_i td))))) \<and>
               sint (nanoseconds (error (entries td ! nat (sint (td_i td))))) < 1000000000) \<or>
            \<not> (0 \<le> sint (nanoseconds (as_of (entries td ! nat (sint (td_i td))))) \<and>
               sint (nanoseconds (as_of (entries td ! nat (sint (td_i td))))) < 1000000000)) \<and>
         (get_and_validate_entry h td \<noteq> Failure EPROTO \<longrightarrow>
            get_and_validate_entry h td = Success (entries td ! nat (sint (td_i td))))"
  using assms
  unfolding get_and_validate_entry_def Let_def nsec_out_of_range_iff index_out_of_range_iff
  by auto

theorem read_protocol_error_iff_witness:
  "setspecific_ret (quiet_host (stamp 0 0) (stamp 0 0)) = 0 \<and>
   \<not> page_fault (quiet_host (stamp 0 0) (stamp 0 0)) \<and>
   sint (nanoseconds (error (entries (live_region (sample_entry\<lparr>error := stamp 0 1000000000\<rparr>))
      ! nat (sint (td_i (live_region (sample_entry\<lparr>error := stamp 0 1000000000\<rparr>))))))) = 1000000000 \<and>
   get_and_validate_entry (quiet_host (stamp 0 0) (stamp 0 0))
     (live_region (sample_entry\<lparr>error := stamp 0 1000000000\<rparr>)) = Failure EPROTO \<and>
   get_and_validate_entry (quiet_host (stamp 0 0) (stamp 0 0)) (live_region sample_entry)
     = Success sample_entry"
proof -
  have h1: "setspecific_ret (quiet_host (stamp 0 0) (stamp 0 0)) = 0"
    by code_simp
  have h2: "\<not> page_fault (quiet_host (stamp 0 0) (stamp 0 0))"
    by code_simp
  have bad: "sint (nanoseconds (error (entries (live_region (sample_entry\<lparr>error := stamp 0 1000000000\<rparr>))
      ! nat (sint (td_i (live_region (sample_entry\<lparr>error := stamp 0 1000000000\<rparr>))))))) = 1000000000"
    by code_simp
  have good: "get_and_validate_entry (quiet_host (stamp 0 0) (stamp 0 0)) (live_region sample_entry)
     \<noteq> Failure EPROTO"
    by code_simp
  have slot: "entries (live_region sample_entry) ! nat (sint (td_i (live_region sample_entry)))
     = sample_entry"
    by code_simp
  from read_protocol_error_iff [OF h1 h2, of "live_region (sample_entry\<lparr>error := stamp 0 1000000000\<rparr>)"] bad
  have r1: "get_and_validate_entry (quiet_host (stamp 0 0) (stamp 0 0))
     (live_region (sample_entry\<lparr>error := stamp 0 1000000000\<rparr>)) = Failure EPROTO"
    by simp
  from read_protocol_error_iff [OF h1 h2, of "live_region sample_entry"] good slot
  have r2: "get_and_validate_entry (quiet_host (stamp 0 0) (stamp 0 0)) (live_region sample_entry)
     = Success sample_entry"
    by simp
  from h1 h2 bad r1 r2 show ?thesis by blast
qed

section \<open>Entering slew mode\<close>

lemma chain_entry:
  assumes "and_then (get_and_validate_entry h td) (\<lambda>entry. and_then (A entry) (\<lambda>my_local_time.
            and_then (B entry my_local_time) (\<lambda>age.
            and_then (C entry age) (\<lambda>scaled_age.
            and_then (D entry scaled_age) (\<lambda>err.
            and_then (E entry err) (\<lambda>my_min.
            and_then (F entry err) (\<lambda>my_max.
            Success (entry, my_local_time, my_min, my_max)))))))) = Success (e, lt, mn, mx)"
  shows "get_and_validate_entry h td = Success e"
  using assms by (auto simp add: and_then_def split: outcome.splits)

lemma first_slew_read:
  assumes sm: "slew_mode c" and np: "\<not> slew_have_prev c"
    and g: "byztime_get_local_time_and_offset h td c = (Success (lt, mn, es, mx), c')"
  shows "\<exists>e. get_and_validate_entry h td = Success e \<and> es = offset e \<and>
             c' = c\<lparr>prev_local_time := lt, prev_offset := es, slew_have_prev := True\<rparr>"
  using g sm np
  unfolding byztime_get_local_time_and_offset_def
  by (auto split: prod.splits bool.splits outcome.splits if_splits dest!: chain_entry)

text \<open>
  C7. When the entry can be read: \<open>byztime_slew\<close> with a \<open>maxerror\<close> that the entry's
  error exceeds (by \<open>byztime_stamp_cmp\<close>) fails with \<open>ERANGE\<close> and leaves the context
  as it was; with no \<open>maxerror\<close>, or an error not above it, it succeeds and the context is
  in slew mode with no previous read recorded. The next read from such a context, when
  it succeeds, emits the offset of the entry it reads and records it as the previous
  offset.
\<close>

theorem slew_gate:
  assumes "get_and_validate_entry h td = Success entry"
  shows "byztime_slew h td ctx lo hi (Some m) =
           (if 0 < byztime_stamp_cmp (error entry) m then (Failure ERANGE, ctx)
            else (Success (), ctx\<lparr>slew_mode := True, slew_have_prev := False,
                                  min_rate_ppb := lo, max_rate_ppb := hi\<rparr>)) \<and>
         byztime_slew h td ctx lo hi None =
           (Success (), ctx\<lparr>slew_mode := True, slew_have_prev := False,
                             min_rate_ppb := lo, max_rate_ppb := hi\<rparr>) \<and>
         (get_and_validate_entry h' td' = Success entry' \<and>
          byztime_get_offset h' td'
            (ctx\<lparr>slew_mode := True, slew_have_prev := False,
                 min_rate_ppb := lo, max_rate_ppb := hi\<rparr>) = (Success (mn, es, mx), ctx')
          \<longrightarrow> es = offset entry' \<and> slew_have_prev ctx' \<and> prev_offset ctx' = offset entry')"
proof (intro conjI impI)
  show "byztime_slew h td ctx lo hi (Some m) =
           (if 0 < byztime_stamp_cmp (error entry) m then (Failure ERANGE, ctx)
            else (Success (), ctx\<lparr>slew_mode := True, slew_have_prev := False,
                                  min_rate_ppb := lo, max_rate_ppb := hi\<rparr>))"
    using assms by (simp add: byztime_slew_def)
  show "byztime_slew h td ctx lo hi None =
           (Success (), ctx\<lparr>slew_mode := True, slew_have_prev := False,
                             min_rate_ppb := lo, max_rate_ppb := hi\<rparr>)"
    using assms by (simp add: byztime_slew_def)
next
  define c where "c = ctx\<lparr>slew_mode := True, slew_have_prev := False,
                min_rate_ppb := lo, max_rate_ppb := hi\<rparr>"
  assume a: "get_and_validate_entry h' td' = Success entry' \<and>
         byztime_get_offset h' td'
           (ctx\<lparr>slew_mode := True, slew_have_prev := False,
                min_rate_ppb := lo, max_rate_ppb := hi\<rparr>) = (Success (mn, es, mx), ctx')"
  then have e: "get_and_validate_entry h' td' = Success entry'"
    and go: "byztime_get_offset h' td' c = (Success (mn, es, mx), ctx')"
    by (simp_all add: c_def)
  obtain r c2 where g: "byztime_get_local_time_and_offset h' td' c = (r, c2)"
    by (cases "byztime_get_local_time_and_offset h' td' c")
  with go obtain lt where r: "r = Success (lt, mn, es, mx)" and c2: "c2 = ctx'"
    by (auto simp add: byztime_get_offset_def and_then_def split: outcome.splits)
  have sm: "slew_mode c" and np: "\<not> slew_have_prev c" by (simp_all add: c_def)
  from first_slew_read [OF sm np g [unfolded r c2]] e
  have "es = offset entry' \<and> slew_have_prev ctx' \<and> prev_offset ctx' = offset entry'"
    by auto
  then show "es = offset entry'" "slew_have_prev ctx'" "prev_offset ctx' = offset entry'"
    by simp_all
qed

theorem slew_gate_witness:
  "get_and_validate_entry (quiet_host (stamp 0 0) (stamp 0 0)) (live_region sample_entry)
     = Success sample_entry \<and>
   byztime_slew (quiet_host (stamp 0 0) (stamp 0 0)) (live_region sample_entry) blank_ctx
       0 1000000000 (Some (stamp 0 999)) = (Failure ERANGE, blank_ctx) \<and>
   byztime_slew (quiet_host (stamp 0 0) (stamp 0 0)) (live_region sample_entry) blank_ctx
       0 1000000000 (Some (stamp 0 1000)) =
     (Success (), blank_ctx\<lparr>slew_mode := True, slew_have_prev := False,
                            min_rate_ppb := 0, max_rate_ppb := 1000000000\<rparr>) \<and>
   byztime_slew (quiet_host (stamp 0 0) (stamp 0 0)) (live_region sample_entry) blank_ctx
       0 1000000000 None =
     (Success (), blank_ctx\<lparr>slew_mode := True, slew_have_prev := False,
                            min_rate_ppb := 0, max_rate_ppb := 1000000000\<rparr>) \<and>
   byztime_get_offset (quiet_host (stamp 5 0) (stamp 0 0)) (live_region sample_entry)
      (blank_ctx\<lparr>slew_mode := True, slew_have_prev := False,
                 min_rate_ppb := 0, max_rate_ppb := 1000000000\<rparr>) =
     (Success (stamp 0 999999000, offset sample_entry, stamp 1 1000),
      blank_ctx\<lparr>slew_mode := True, slew_have_prev := True, min_rate_ppb := 0,
                max_rate_ppb := 1000000000, prev_local_time := stamp 5 0,
                prev_offset := offset sample_entry\<rparr>)"
proof -
  have rd: "get_and_validate_entry (quiet_host (stamp 0 0) (stamp 0 0)) (live_region sample_entry)
     = Success sample_entry"
    by code_simp
  have rd': "get_and_validate_entry (quiet_host (stamp 5 0) (stamp 0 0)) (live_region sample_entry)
     = Success sample_entry"
    by code_simp
  have above: "0 < byztime_stamp_cmp (error sample_entry) (stamp 0 999)"
    by code_simp
  have equal: "\<not> 0 < byztime_stamp_cmp (error sample_entry) (stamp 0 1000)"
    by code_simp
  have nxt: "byztime_get_offset (quiet_host (stamp 5 0) (stamp 0 0)) (live_region sample_entry)
      (blank_ctx\<lparr>slew_mode := True, slew_have_prev := False,
                 min_rate_ppb := 0, max_rate_ppb := 1000000000\<rparr>) =
     (Success (stamp 0 999999000, stamp 1 0, stamp 1 1000),
      blank_ctx\<lparr>slew_mode := True, slew_have_prev := True, min_rate_ppb := 0,
                max_rate_ppb := 1000000000, prev_local_time := stamp 5 0,
                prev_offset := stamp 1 0\<rparr>)"
    by code_simp
  note g1 = slew_gate [OF rd, of blank_ctx 0 1000000000 "stamp 0 999"
      "quiet_host (stamp 5 0) (stamp 0 0)" "live_region sample_entry" sample_entry
      "stamp 0 999999000" "stamp 1 0" "stamp 1 1000"
      "blank_ctx\<lparr>slew_mode := True, slew_have_prev := True, min_rate_ppb := 0,
                max_rate_ppb := 1000000000, prev_local_time := stamp 5 0,
                prev_offset := stamp 1 0\<rparr>"]
  note g2 = slew_gate [OF rd, of blank_ctx 0 1000000000 "stamp 0 1000"]
  from g1 rd' nxt have es: "stamp 1 0 = offset sample_entry" by simp
  from nxt have r5: "byztime_get_offset (quiet_host (stamp 5 0) (stamp 0 0)) (live_region sample_entry)
      (blank_ctx\<lparr>slew_mode := True, slew_have_prev := False,
                 min_rate_ppb := 0, max_rate_ppb := 1000000000\<rparr>) =
     (Success (stamp 0 999999000, offset sample_entry, stamp 1 1000),
      blank_ctx\<lparr>slew_mode := True, slew_have_prev := True, min_rate_ppb := 0,
                max_rate_ppb := 1000000000, prev_local_time := stamp 5 0,
                prev_offset := offset sample_entry\<rparr>)"
    unfolding es .
  from g1 above have r2: "byztime_slew (quiet_host (stamp 0 0) (stamp 0 0)) (live_region sample_entry) blank_ctx
       0 1000000000 (Some (stamp 0 999)) = (Failure ERANGE, blank_ctx)"
    by simp
  from g2 equal have r3: "byztime_slew (quiet_host (stamp 0 0) (stamp 0 0)) (live_region sample_entry) blank_ctx
       0 1000000000 (Some (stamp 0 1000)) =
     (Success (), blank_ctx\<lparr>slew_mode := True, slew_have_prev := False,
                            min_rate_ppb := 0, max_rate_ppb := 1000000000\<rparr>)"
    by simp
  from g1 have r4: "byztime_slew (quiet_host (stamp 0 0) (stamp 0 0)) (live_region sample_entry) blank_ctx
       0 1000000000 None =
     (Success (), blank_ctx\<lparr>slew_mode := True, slew_have_prev := False,
                            min_rate_ppb := 0, max_rate_ppb := 1000000000\<rparr>)"
    by simp
  from rd r2 r3 r4 r5 show ?thesis by blast
qed

section \<open>Failed reads and the context\<close>

lemma get_local_time_and_offset_failure:
  "byztime_get_local_time_and_offset h td ctx = (r, ctx') \<Longrightarrow> (\<forall>x. r \<noteq> Success x) \<Longrightarrow> ctx' = ctx"
  unfolding byztime_get_local_time_and_offset_def
  by (auto split: prod.splits bool.splits outcome.splits if_splits)

text \<open>
  C10. Whenever \<open>byztime_get_offset\<close> returns failure, the context is exactly as it was
  before the call: mode flag, \<open>slew_have_prev\<close>, \<open>prev_local_time\<close>, \<open>prev_offset\<close> and
  drift. The slew history advances only on a successful read.
\<close>

theorem get_offset_failure_keeps_ctx:
  assumes "byztime_get_offset h td ctx = (Failure e, ctx')"
  shows "ctx' = ctx"
proof -
  obtain r c where g: "byztime_get_local_time_and_offset h td ctx = (r, c)"
    by (cases "byztime_get_local_time_and_offset h td ctx")
  with assms have c: "c = ctx'" and r: "and_then r (\<lambda>(local_time, my_min, my_est, my_max).
                                    Success (my_min, my_est, my_max)) = Failure e"
    by (simp_all add: byztime_get_offset_def)
  from r have "\<forall>x. r \<noteq> Success x"
    by (auto simp add: and_then_def split: outcome.splits)
  with g c show ?thesis by (auto dest: get_local_time_and_offset_failure)
qed

theorem get_offset_failure_keeps_ctx_witness:
  "fst (byztime_get_offset (quiet_host (stamp 1 0) (stamp 0 0))
         (live_region sample_entry) slewing_ctx) = Failure EOVERFLOW \<and>
   snd (byztime_get_offset (quiet_host (stamp 1 0) (stamp 0 0))
         (live_region sample_entry) slewing_ctx) = slewing_ctx"
proof -
  have h: "fst (byztime_get_offset (quiet_host (stamp 1 0) (stamp 0 0))
         (live_region sample_entry) slewing_ctx) = Failure EOVERFLOW"
    by code_simp
  then have "byztime_get_offset (quiet_host (stamp 1 0) (stamp 0 0))
         (live_region sample_entry) slewing_ctx
      = (Failure EOVERFLOW, snd (byztime_get_offset (quiet_host (stamp 1 0) (stamp 0 0))
         (live_region sample_entry) slewing_ctx))"
    by (metis prod.collapse)
  from get_offset_failure_keeps_ctx [OF this] h show ?thesis by simp
qed

section \<open>Publishing an entry\<close>




text \<open>
  C4 as stated fails on an entry published with a nanoseconds field outside
  \<open>[0, 10\<^sup>9)\<close>: \<open>byztime_set_offset\<close> called with the offset \<open>(0, -5)\<close> succeeds and
  stores that offset as it is.
\<close>

theorem set_offset_stores_denormalized:
  "byztime_set_offset (quiet_host (stamp 0 0) (stamp 0 0)) (live_region sample_entry)
       (stamp 0 (- 5)) (stamp 0 0) (Some (stamp 0 0)) =
     (Success (),
      [Store_entry 2 \<lparr>offset = stamp 0 (- 5), error = stamp 0 0, as_of = stamp 0 0\<rparr>,
       Store_i 2]) \<and>
   sint (nanoseconds (offset
      (entries (commit (live_region sample_entry)
         (snd (byztime_set_offset (quiet_host (stamp 0 0) (stamp 0 0)) (live_region sample_entry)
                (stamp 0 (- 5)) (stamp 0 0) (Some (stamp 0 0))))) ! 2))) = - 5"
  by code_simp

text \<open>
  C4, as the code has it. \<open>byztime_set_offset\<close> publishes its \<open>offset\<close> and \<open>error\<close>
  arguments, and \<open>as_of\<close> when it is given, exactly as they are passed: each nanoseconds
  field of the published entry is in \<open>[0, 10\<^sup>9)\<close> when the argument's is. An omitted
  \<open>as_of\<close> is the normalised local time, whose nanoseconds field is always in range.
\<close>

theorem set_offset_publishes_arguments:
  assumes "Store_entry k e \<in> set (snd (byztime_set_offset h td offs err a))"
  shows "offset e = offs \<and> error e = err \<and>
         (case a of Some x \<Rightarrow> as_of e = x
          | None \<Rightarrow> 0 \<le> sint (nanoseconds (as_of e)) \<and> sint (nanoseconds (as_of e)) < 1000000000)"
proof (cases a)
  case (Some x)
  with assms show ?thesis
    by (auto simp add: byztime_set_offset_def Let_def split: if_splits)
next
  case None
  have n: "byztime_get_local_time h = Success t \<Longrightarrow>
      0 \<le> sint (nanoseconds t) \<and> sint (nanoseconds t) < 1000000000" for t
    using normalize_nsec
    by (auto simp add: byztime_get_local_time_def checked_def split: sum.splits if_splits)
  from None assms show ?thesis
    by (auto simp add: byztime_set_offset_def Let_def split: if_splits outcome.splits dest: n)
qed

theorem set_offset_publishes_arguments_witness:
  "Store_entry 2 \<lparr>offset = stamp 5 0, error = stamp 0 1000000, as_of = stamp 7 5\<rparr>
     \<in> set (snd (byztime_set_offset (quiet_host (stamp 6 1000000005) (stamp 0 0))
                   (live_region sample_entry) (stamp 5 0) (stamp 0 1000000) None)) \<and>
   sint (nanoseconds (as_of \<lparr>offset = stamp 5 0, error = stamp 0 1000000, as_of = stamp 7 5\<rparr>)) = 5"
proof -
  have m: "Store_entry 2 \<lparr>offset = stamp 5 0, error = stamp 0 1000000, as_of = stamp 7 5\<rparr>
     \<in> set (snd (byztime_set_offset (quiet_host (stamp 6 1000000005) (stamp 0 0))
                   (live_region sample_entry) (stamp 5 0) (stamp 0 1000000) None))"
    by code_simp
  have v: "sint (nanoseconds (stamp 7 5)) = 5"
    by (simp add: stamp_def)
  from set_offset_publishes_arguments [OF m] m v show ?thesis by simp
qed

section \<open>First-time initialisation\<close>

lemma mask_255: "(255::int32) = mask 8"
  by (simp add: mask_eq_exp_minus_1)

lemma word_bytes_bytes_word: "word_bytes (bytes_word b0 b1 b2 b3) = [b0, b1, b2, b3]"
  unfolding word_bytes_def bytes_word_def mask_255
  by (simp, intro conjI; rule bit_word_eqI; auto simp add: bit_simps dest: bit_imp_le_length)

lemma upt_4: "[0..<4] = [0, 1, 2, 3]"
  by (simp add: upt_rec)

lemma load_store_era: "length e = 16 \<Longrightarrow> load_era (store_era e) = e"
  apply (simp add: load_era_def store_era_def upt_4 word_bytes_bytes_word)
  apply (rule nth_equalityI)
   apply simp
  apply (auto simp add: less_Suc_eq numeral_eq_Suc nth_Cons')
  done

lemma load_store_magic: "load_magic (store_magic expected_magic) = expected_magic"
  by code_simp

lemma local_time_100:
  "monotonic_raw h = Inr (stamp 100 0) \<Longrightarrow> byztime_get_local_time h = Success (stamp 100 0)"
proof -
  have "checked (byztime_stamp_normalize (stamp 100 0)) = Success (stamp 100 0)"
    by code_simp
  then show "monotonic_raw h = Inr (stamp 100 0) \<Longrightarrow>
      byztime_get_local_time h = Success (stamp 100 0)"
    by (simp add: byztime_get_local_time_def)
qed

lemma real_time_1700000000:
  "realtime h = Inr (stamp 1700000000 0) \<Longrightarrow>
     byztime_get_real_time h = Success (stamp 1700000000 0)"
proof -
  have "checked (byztime_stamp_normalize (stamp 1700000000 0)) = Success (stamp 1700000000 0)"
    by code_simp
  then show "realtime h = Inr (stamp 1700000000 0) \<Longrightarrow>
      byztime_get_real_time h = Success (stamp 1700000000 0)"
    by (simp add: byztime_get_real_time_def)
qed

lemma first_offset:
  "checked (byztime_stamp_sub (stamp 1700000000 0) (stamp 100 0)) = Success (stamp 1699999900 0)"
  by code_simp

lemma zerostamp_stamp: "zerostamp = stamp 0 0"
  by (simp add: zerostamp_def stamp_def)

lemma unknown_error_value: "unknown_error = stamp 4611686018427387903 0"
  by code_simp

text \<open>
  C3 as stated fails on the error bound: first-time initialisation writes
  \<open>INT64_MAX >> 1\<close>, which is \<open>2\<^sup>6\<^sup>2 - 1\<close> and not \<open>2\<^sup>6\<^sup>2\<close>. Here on the empty
  region, with the local clock at \<open>(100, 0)\<close> and the real clock at \<open>(1700000000, 0)\<close>.
\<close>

theorem open_rw_error_sentinel:
  "load_magic (magic fresh_region) \<noteq> expected_magic \<and>
   fst (byztime_open_rw (quiet_host (stamp 100 0) (stamp 1700000000 0)) fresh_region) =
     Success step_ctx \<and>
   error (entries (commit fresh_region
       (snd (byztime_open_rw (quiet_host (stamp 100 0) (stamp 1700000000 0)) fresh_region))) ! 0) =
     stamp 4611686018427387903 0 \<and>
   error (entries (commit fresh_region
       (snd (byztime_open_rw (quiet_host (stamp 100 0) (stamp 1700000000 0)) fresh_region))) ! 0) \<noteq>
     stamp (2 ^ 62) 0"
  by code_simp

text \<open>
  C3, as the code has it. When \<open>byztime_open_rw\<close> maps a region without the magic, with
  the local clock at \<open>(100, 0)\<close> and the real clock at \<open>(1700000000, 0)\<close>, its stores are,
  in this order: \<open>real_offset = (0, 0)\<close>; entry 0 with offset \<open>(1699999900, 0)\<close>, error
  \<open>(2\<^sup>6\<^sup>2 - 1, 0)\<close> and \<open>as_of = (100, 0)\<close>; index \<open>0\<close>; the current era; and, last,
  the magic. The region afterwards holds these values.
\<close>

theorem open_rw_first_time_init:
  assumes sys: "sigbus_key_init h = None" "clock_era h = Inr e" "malloc_ctx h = Inr c"
      "open_file h = None" "lock_file h = None" "\<not> posix_fallocate_ret h < 0" "mmap_file h = None"
    and clk: "monotonic_raw h = Inr (stamp 100 0)" "realtime h = Inr (stamp 1700000000 0)"
    and wf: "length e = 16" "length (entries td) = 62"
    and absent: "load_magic (magic td) \<noteq> expected_magic"
  shows "snd (byztime_open_rw h td) =
           [Store_real_offset (stamp 0 0),
            Store_entry 0 \<lparr>offset = stamp 1699999900 0, error = stamp 4611686018427387903 0,
                           as_of = stamp 100 0\<rparr>,
            Store_i 0, Store_era e, Store_magic expected_magic] \<and>
         entries (commit td (snd (byztime_open_rw h td))) ! 0 =
            \<lparr>offset = stamp 1699999900 0, error = stamp 4611686018427387903 0,
             as_of = stamp 100 0\<rparr> \<and>
         real_offset (commit td (snd (byztime_open_rw h td))) = stamp 0 0 \<and>
         td_i (commit td (snd (byztime_open_rw h td))) = 0 \<and>
         load_era (era (commit td (snd (byztime_open_rw h td)))) = e \<and>
         load_magic (magic (commit td (snd (byztime_open_rw h td)))) = expected_magic"
proof -
  have init: "init_timedata h td e =
      (Success (), [Store_real_offset (stamp 0 0),
            Store_entry 0 \<lparr>offset = stamp 1699999900 0, error = stamp 4611686018427387903 0,
                           as_of = stamp 100 0\<rparr>,
            Store_i 0, Store_era e, Store_magic expected_magic])"
    using absent
    by (simp add: init_timedata_def local_time_100 [OF clk(1)] real_time_1700000000 [OF clk(2)]
        and_then_def first_offset unknown_error_value zerostamp_stamp)
  have st: "snd (byztime_open_rw h td) =
           [Store_real_offset (stamp 0 0),
            Store_entry 0 \<lparr>offset = stamp 1699999900 0, error = stamp 4611686018427387903 0,
                           as_of = stamp 100 0\<rparr>,
            Store_i 0, Store_era e, Store_magic expected_magic]"
    using sys by (simp add: byztime_open_rw_def init)
  show ?thesis
    unfolding st using wf
    by (simp add: commit_def load_store_era load_store_magic)
qed

theorem open_rw_first_time_init_witness:
  "load_magic (magic fresh_region) \<noteq> expected_magic \<and>
   snd (byztime_open_rw (quiet_host (stamp 100 0) (stamp 1700000000 0)) fresh_region) =
     [Store_real_offset (stamp 0 0),
      Store_entry 0 \<lparr>offset = stamp 1699999900 0, error = stamp 4611686018427387903 0,
                     as_of = stamp 100 0\<rparr>,
      Store_i 0, Store_era boot_era, Store_magic expected_magic] \<and>
   load_magic (magic (commit fresh_region
     (snd (byztime_open_rw (quiet_host (stamp 100 0) (stamp 1700000000 0)) fresh_region)))) =
     expected_magic"
proof -
  have a: "sigbus_key_init (quiet_host (stamp 100 0) (stamp 1700000000 0)) = None"
    "clock_era (quiet_host (stamp 100 0) (stamp 1700000000 0)) = Inr boot_era"
    "malloc_ctx (quiet_host (stamp 100 0) (stamp 1700000000 0)) = Inr blank_ctx"
    "open_file (quiet_host (stamp 100 0) (stamp 1700000000 0)) = None"
    "lock_file (quiet_host (stamp 100 0) (stamp 1700000000 0)) = None"
    "\<not> posix_fallocate_ret (quiet_host (stamp 100 0) (stamp 1700000000 0)) < 0"
    "mmap_file (quiet_host (stamp 100 0) (stamp 1700000000 0)) = None"
    "monotonic_raw (quiet_host (stamp 100 0) (stamp 1700000000 0)) = Inr (stamp 100 0)"
    "realtime (quiet_host (stamp 100 0) (stamp 1700000000 0)) = Inr (stamp 1700000000 0)"
    "length boot_era = 16"
    "length (entries fresh_region) = 62"
    by (simp_all add: quiet_host_def boot_era_def fresh_region_def)
  have m: "load_magic (magic fresh_region) \<noteq> expected_magic"
    by code_simp
  from open_rw_first_time_init [OF a m] m show ?thesis by (elim conjE) simp
qed

section \<open>The era\<close>

text \<open>
  C8 as stated fails on the reads: while the stored era differs from the host's,
  \<open>byztime_get_offset\<close> and \<open>byztime_get_global_time\<close> succeed, on the region whose
  era \<open>byztime_open_ro\<close> refuses.
\<close>

theorem reads_succeed_on_era_mismatch:
  "load_era (era (live_region sample_entry)) \<noteq> other_era \<and>
   clock_era ((quiet_host (stamp 1 0) (stamp 0 0))\<lparr>clock_era := Inr other_era\<rparr>) = Inr other_era \<and>
   byztime_open_ro ((quiet_host (stamp 1 0) (stamp 0 0))\<lparr>clock_era := Inr other_era\<rparr>)
       (live_region sample_entry) = Failure ECONNREFUSED \<and>
   byztime_get_offset ((quiet_host (stamp 1 0) (stamp 0 0))\<lparr>clock_era := Inr other_era\<rparr>)
       (live_region sample_entry) step_ctx =
     (Success (stamp 0 999499000, stamp 1 0, stamp 1 501000), step_ctx) \<and>
   byztime_get_global_time ((quiet_host (stamp 1 0) (stamp 0 0))\<lparr>clock_era := Inr other_era\<rparr>)
       (live_region sample_entry) step_ctx =
     (Success (stamp 1 999499000, stamp 2 0, stamp 2 501000), step_ctx)"
  by code_simp

text \<open>
  C8, as the code has it. When the file can be opened and mapped and holds the magic,
  and its stored era differs from the current clock era, \<open>byztime_open_ro\<close> fails with
  \<open>ECONNREFUSED\<close>. The reads do not look at the era: the results of
  \<open>get_and_validate_entry\<close>, \<open>byztime_get_offset\<close> and \<open>byztime_get_global_time\<close> are
  the same whatever the stored era and the current era are.
\<close>

theorem era_checked_on_open_only:
  assumes sys: "sigbus_key_init h = None" "clock_era h = Inr e" "malloc_ctx h = Inr c"
      "open_file h = None" "fstat_size h = Inr n" "4096 \<le> n" "mmap_file h = None"
      "setspecific_ret h = 0" "\<not> page_fault h"
    and mg: "load_magic (magic td) = expected_magic"
    and mismatch: "load_era (era td) \<noteq> e"
  shows "byztime_open_ro h td = Failure ECONNREFUSED \<and>
         get_and_validate_entry (h\<lparr>clock_era := x\<rparr>) (td\<lparr>era := y\<rparr>) =
           get_and_validate_entry h td \<and>
         byztime_get_offset (h\<lparr>clock_era := x\<rparr>) (td\<lparr>era := y\<rparr>) ctx =
           byztime_get_offset h td ctx \<and>
         byztime_get_global_time (h\<lparr>clock_era := x\<rparr>) (td\<lparr>era := y\<rparr>) ctx =
           byztime_get_global_time h td ctx"
proof -
  have o: "byztime_open_ro h td = Failure ECONNREFUSED"
    using sys mg mismatch by (simp add: byztime_open_ro_def)
  have g: "get_and_validate_entry (h\<lparr>clock_era := x\<rparr>) (td\<lparr>era := y\<rparr>) =
      get_and_validate_entry h td"
    by (simp add: get_and_validate_entry_def Let_def)
  have l: "byztime_get_local_time (h\<lparr>clock_era := x\<rparr>) = byztime_get_local_time h"
    by (simp add: byztime_get_local_time_def)
  have lo: "byztime_get_local_time_and_offset (h\<lparr>clock_era := x\<rparr>) (td\<lparr>era := y\<rparr>) ctx =
      byztime_get_local_time_and_offset h td ctx"
    unfolding byztime_get_local_time_and_offset_def g l ..
  show ?thesis
    unfolding byztime_get_offset_def byztime_get_global_time_def lo using o g by simp
qed

theorem era_checked_on_open_only_witness:
  "load_era (era (live_region sample_entry)) \<noteq> other_era \<and>
   byztime_open_ro ((quiet_host (stamp 1 0) (stamp 0 0))\<lparr>clock_era := Inr other_era\<rparr>)
     (live_region sample_entry) = Failure ECONNREFUSED \<and>
   byztime_get_offset
     ((quiet_host (stamp 1 0) (stamp 0 0))\<lparr>clock_era := Inr other_era\<rparr>\<lparr>clock_era := Inr boot_era\<rparr>)
     ((live_region sample_entry)\<lparr>era := store_era other_era\<rparr>) step_ctx =
   byztime_get_offset ((quiet_host (stamp 1 0) (stamp 0 0))\<lparr>clock_era := Inr other_era\<rparr>)
     (live_region sample_entry) step_ctx"
proof -
  have a: "sigbus_key_init ((quiet_host (stamp 1 0) (stamp 0 0))\<lparr>clock_era := Inr other_era\<rparr>) = None"
    "clock_era ((quiet_host (stamp 1 0) (stamp 0 0))\<lparr>clock_era := Inr other_era\<rparr>) = Inr other_era"
    "malloc_ctx ((quiet_host (stamp 1 0) (stamp 0 0))\<lparr>clock_era := Inr other_era\<rparr>) = Inr blank_ctx"
    "open_file ((quiet_host (stamp 1 0) (stamp 0 0))\<lparr>clock_era := Inr other_era\<rparr>) = None"
    "fstat_size ((quiet_host (stamp 1 0) (stamp 0 0))\<lparr>clock_era := Inr other_era\<rparr>) = Inr 4096"
    "(4096::int) \<le> 4096"
    "mmap_file ((quiet_host (stamp 1 0) (stamp 0 0))\<lparr>clock_era := Inr other_era\<rparr>) = None"
    "setspecific_ret ((quiet_host (stamp 1 0) (stamp 0 0))\<lparr>clock_era := Inr other_era\<rparr>) = 0"
    "\<not> page_fault ((quiet_host (stamp 1 0) (stamp 0 0))\<lparr>clock_era := Inr other_era\<rparr>)"
    by (simp_all add: quiet_host_def)
  have mg: "load_magic (magic (live_region sample_entry)) = expected_magic"
    by code_simp
  have mm: "load_era (era (live_region sample_entry)) \<noteq> other_era"
    by code_simp
  from era_checked_on_open_only [OF a mg mm, of "Inr boot_era" "store_era other_era" step_ctx] mm
  show ?thesis by simp
qed

section \<open>A read in step mode\<close>

text \<open>
  C2 as stated fails on the lower bound. The publish-and-read scenario, evaluated: \<open>min\<close>
  is \<open>(4, 998500000)\<close>, five seconds less one and a half milliseconds, and not
  \<open>(4, 999998500)\<close>.
\<close>

theorem step_read_min_value:
  "drift_ppb step_ctx = 250000 \<and> \<not> slew_mode step_ctx \<and>
   get_and_validate_entry (quiet_host (stamp 201 0) (stamp 0 0)) (live_region publish_entry)
     = Success \<lparr>offset = stamp 5 0, error = stamp 0 1000000, as_of = stamp 200 0\<rparr> \<and>
   byztime_get_offset (quiet_host (stamp 201 0) (stamp 0 0)) (live_region publish_entry) step_ctx
     = (Success (stamp 4 998500000, stamp 5 0, stamp 5 1500000), step_ctx) \<and>
   stamp 4 998500000 \<noteq> stamp 4 999998500"
  by code_simp

lemma local_time_201:
  "monotonic_raw h = Inr (stamp 201 0) \<Longrightarrow> byztime_get_local_time h = Success (stamp 201 0)"
proof -
  have "checked (byztime_stamp_normalize (stamp 201 0)) = Success (stamp 201 0)"
    by code_simp
  then show "monotonic_raw h = Inr (stamp 201 0) \<Longrightarrow>
      byztime_get_local_time h = Success (stamp 201 0)"
    by (simp add: byztime_get_local_time_def)
qed

lemma drift_x2: "builtin_mul_overflow 250000 2 = (False, 500000)"
  by code_simp

lemma age_1: "byztime_stamp_sub (stamp 201 0) (stamp 200 0) = (False, stamp 1 0)"
  by code_simp

lemma scaled_age_1: "byztime_stamp_scale (stamp 1 0) 500000 = Some (False, stamp 0 500000)"
  by code_simp

lemma error_now_1:
  "byztime_stamp_add (stamp 0 1000000) (stamp 0 500000) = (False, stamp 0 1500000)"
  by code_simp

lemma min_1: "byztime_stamp_sub (stamp 5 0) (stamp 0 1500000) = (False, stamp 4 998500000)"
  by code_simp

lemma max_1: "byztime_stamp_add (stamp 5 0) (stamp 0 1500000) = (False, stamp 5 1500000)"
  by code_simp

text \<open>
  C2, as the code has it. For a context in step mode with \<open>drift_ppb = 250000\<close>, a
  \<open>byztime_get_offset\<close> call that reads the entry with offset \<open>(5, 0)\<close>, error
  \<open>(0, 1000000)\<close> and \<open>as_of = (200, 0)\<close> at local time \<open>(201, 0)\<close> computes the age
  \<open>(1, 0)\<close> and the error \<open>(0, 1000000) + scale((1, 0), 500000) = (0, 1500000)\<close>, and
  returns \<open>min = (4, 998500000)\<close>, \<open>est = (5, 0)\<close>, \<open>max = (5, 1500000)\<close>, leaving the
  context as it was.
\<close>

theorem step_read_example:
  assumes "drift_ppb ctx = 250000" and "\<not> slew_mode ctx"
    and "get_and_validate_entry h td =
           Success \<lparr>offset = stamp 5 0, error = stamp 0 1000000, as_of = stamp 200 0\<rparr>"
    and "monotonic_raw h = Inr (stamp 201 0)"
  shows "byztime_stamp_sub (stamp 201 0) (stamp 200 0) = (False, stamp 1 0) \<and>
         byztime_stamp_scale (stamp 1 0) (2 * 250000) = Some (False, stamp 0 500000) \<and>
         byztime_stamp_add (stamp 0 1000000) (stamp 0 500000) = (False, stamp 0 1500000) \<and>
         byztime_get_offset h td ctx =
           (Success (stamp 4 998500000, stamp 5 0, stamp 5 1500000), ctx)"
proof -
  have "byztime_get_local_time_and_offset h td ctx =
      (Success (stamp 201 0, stamp 4 998500000, stamp 5 0, stamp 5 1500000), ctx)"
    using assms(1-3)
    by (simp add: byztime_get_local_time_and_offset_def drift_x2 and_then_def
        local_time_201 [OF assms(4)] checked_def checked_scale_def age_1 scaled_age_1
        error_now_1 min_1 max_1)
  then have "byztime_get_offset h td ctx =
           (Success (stamp 4 998500000, stamp 5 0, stamp 5 1500000), ctx)"
    by (simp add: byztime_get_offset_def and_then_def)
  with age_1 scaled_age_1 error_now_1 show ?thesis by simp
qed

theorem step_read_example_witness:
  "drift_ppb step_ctx = 250000 \<and> \<not> slew_mode step_ctx \<and>
   monotonic_raw (quiet_host (stamp 201 0) (stamp 0 0)) = Inr (stamp 201 0) \<and>
   byztime_get_offset (quiet_host (stamp 201 0) (stamp 0 0)) (live_region publish_entry) step_ctx
     = (Success (stamp 4 998500000, stamp 5 0, stamp 5 1500000), step_ctx)"
proof -
  have a: "drift_ppb step_ctx = 250000" "\<not> slew_mode step_ctx"
    "get_and_validate_entry (quiet_host (stamp 201 0) (stamp 0 0)) (live_region publish_entry)
       = Success \<lparr>offset = stamp 5 0, error = stamp 0 1000000, as_of = stamp 200 0\<rparr>"
    "monotonic_raw (quiet_host (stamp 201 0) (stamp 0 0)) = Inr (stamp 201 0)"
    by code_simp+
  from step_read_example [OF a] a show ?thesis by simp
qed

section \<open>The slew clamp\<close>

text \<open>
  C1. The slew scenario, evaluated on the code. After \<open>byztime_slew\<close> with
  \<open>min_rate = 0\<close> and \<open>max_rate = 10\<^sup>9\<close>, the first read, at local time \<open>(0, 0)\<close> of an
  entry with offset \<open>(0, 0)\<close>, gives the global estimate \<open>(0, 0)\<close> and records it. The
  second read, at local time \<open>(1, 0)\<close> of an entry with offset \<open>(10, 0)\<close>, emits the
  offset estimate \<open>(10, 0)\<close> and the global estimate \<open>(11, 0)\<close>: the global estimate has
  advanced by eleven seconds in one second of local time. The clamp scales the global
  time elapsed, \<open>global_time_since_prev\<close>, by the rates, where the bound
  \<open>max_rate \<cdot> (l\<^sub>2 - l\<^sub>1)\<close> is the local time elapsed scaled by the rate.
\<close>

theorem slew_clamp_scales_global_time:
  "slew_mode slew_ctx_0 \<and> min_rate_ppb slew_ctx_0 = 0 \<and> max_rate_ppb slew_ctx_0 = 1000000000 \<and>
   fst (byztime_get_global_time (quiet_host (stamp 0 0) (stamp 0 0)) (live_region first_entry)
          slew_ctx_0) = Success (stamp 0 0, stamp 0 0, stamp 0 0) \<and>
   slew_have_prev slew_ctx_1 \<and> prev_local_time slew_ctx_1 = stamp 0 0 \<and>
   prev_offset slew_ctx_1 = stamp 0 0 \<and>
   fst (byztime_get_offset (quiet_host (stamp 1 0) (stamp 0 0)) (live_region second_entry)
          slew_ctx_1) = Success (stamp 9 999500000, stamp 10 0, stamp 10 500000) \<and>
   fst (byztime_get_global_time (quiet_host (stamp 1 0) (stamp 0 0)) (live_region second_entry)
          slew_ctx_1) = Success (stamp 10 999500000, stamp 11 0, stamp 11 500000)"
  by code_simp

end
